theory Spec2Isabelle
  imports Main "HOL-Library.Sublist"
begin

section \<open>Values, exceptions and the observable world\<close>

text \<open>
  The repository is a thin layer over the wallet provider's SDK (\<open>cdp\<close>), the local
  file system and the web framework.  None of the three is part of the repository, so
  the SDK is a parameter of the model (a record of functions that may depend on and
  change an opaque provider state), the file system is a map from paths to contents,
  and every call that leaves the process is recorded in a trace, in the order in which
  the code issues it.  Logging is not modelled.
\<close>

type_synonym path = string

record Wallet =
  id' :: string
  network_id :: string

record WalletAddress =
  address_id :: string

text \<open>
  Python values: what JSON can carry, the SDK's wallet object, and \<open>PySdk\<close> for any
  other object of an SDK class, which is not a mapping.
\<close>

datatype pyval =
    PyNone
  | PyStr string
  | PyDict "(string \<times> pyval) list"
  | PyWallet Wallet
  | PySdk nat
  | PyInt int
  | PyBool bool
  | PyList "pyval list"

text \<open>\<open>type(v).__name__\<close>; the class of a \<open>PySdk\<close> object is not modelled.\<close>

fun type_name :: "pyval \<Rightarrow> string" where
  "type_name PyNone = ''NoneType''"
| "type_name (PyStr _) = ''str''"
| "type_name (PyDict _) = ''dict''"
| "type_name (PyWallet _) = ''Wallet''"
| "type_name (PySdk _) = ''object''"
| "type_name (PyInt _) = ''int''"
| "type_name (PyBool _) = ''bool''"
| "type_name (PyList _) = ''list''"

fun is_dict :: "pyval \<Rightarrow> bool" where
  "is_dict (PyDict _) = True"
| "is_dict _ = False"

datatype exn =
    Exception string
  | AttributeError string
  | TypeError string
  | HTTPException nat string
  | SdkError string
  | UnicodeEncodeError string

definition digit_char :: "nat \<Rightarrow> char" where
  "digit_char n = ''0123456789'' ! n"

fun show_nat :: "nat \<Rightarrow> string" where
  "show_nat n = (if n < 10 then [digit_char n] else show_nat (n div 10) @ [digit_char (n mod 10)])"

text \<open>
  \<open>str(e)\<close>.  Every exception class of the model derives from \<open>Exception\<close>; the
  built-in ones print their message, the framework's \<open>HTTPException\<close> prints
  \<open>"<status_code>: <detail>"\<close>.
\<close>

fun str :: "exn \<Rightarrow> string" where
  "str (Exception m) = m"
| "str (AttributeError m) = m"
| "str (TypeError m) = m"
| "str (HTTPException st d) = show_nat st @ '': '' @ d"
| "str (SdkError m) = m"
| "str (UnicodeEncodeError m) = m"

datatype pyattr =
    AVal pyval
  | AFun "pyval list \<Rightarrow> exn + pyval"

record Response =
  raise_for_status :: "exn option"
  json :: "exn + pyval"

datatype event =
    Ev_configure string string
  | Ev_Wallet_create string
  | Ev_create_address string
  | Ev_save_seed string path bool
  | Ev_exists path
  | Ev_load_seed path string
  | Ev_open_w path
  | Ev_write path string
  | Ev_export_data string
  | Ev_balances string
  | Ev_create_webhook string string "string list"
  | Ev_get_api_base
  | Ev_request string string string pyval

record 'p world =
  files :: "path \<rightharpoonup> string"
  sdk_state :: 'p
  trace :: "event list"

text \<open>
  The SDK and the standard library, as far as the code calls them.  \<open>Wallet_save_seed\<close>
  receives the prior contents of the file it is asked to write and returns the new
  contents together with its outcome; \<open>Wallet_load_seed\<close> reads the file system.  No
  other SDK call touches local files.  \<open>encode_error\<close> is the platform's text encoding
  of a file opened without an explicit one: the exception it raises for a text it cannot
  encode, \<open>None\<close> for a text it can.
\<close>

record 'p Sdk =
  Cdp_configure :: "string \<Rightarrow> string \<Rightarrow> 'p \<Rightarrow> (exn + unit) \<times> 'p"
  Wallet_create :: "string \<Rightarrow> 'p \<Rightarrow> (exn + Wallet) \<times> 'p"
  Wallet_create_address :: "Wallet \<Rightarrow> 'p \<Rightarrow> (exn + WalletAddress) \<times> 'p"
  Wallet_save_seed ::
    "Wallet \<Rightarrow> path \<Rightarrow> bool \<Rightarrow> string option \<Rightarrow> 'p \<Rightarrow> ((exn + unit) \<times> string option) \<times> 'p"
  Wallet_load_seed ::
    "path \<Rightarrow> string \<Rightarrow> (path \<rightharpoonup> string) \<Rightarrow> 'p \<Rightarrow> (exn + Wallet option) \<times> 'p"
  Wallet_export_data :: "Wallet \<Rightarrow> 'p \<Rightarrow> (exn + pyval) \<times> 'p"
  Wallet_balances :: "Wallet \<Rightarrow> 'p \<Rightarrow> (exn + pyval) \<times> 'p"
  Wallet_create_webhook :: "string \<Rightarrow> string \<Rightarrow> string list \<Rightarrow> 'p \<Rightarrow> (exn + pyval) \<times> 'p"
  Cdp_get_api_base :: "'p \<Rightarrow> (exn + string) \<times> 'p"
  Cdp_request ::
    "string \<Rightarrow> string \<Rightarrow> string \<Rightarrow> pyval \<Rightarrow> pyattr \<Rightarrow> 'p \<Rightarrow> (exn + Response) \<times> 'p"
  json_dumps :: "pyval \<Rightarrow> string"
  encode_error :: "string \<Rightarrow> exn option"

subsection \<open>Computations that may raise\<close>

type_synonym ('a, 'p) py = "'p world \<Rightarrow> (exn + 'a) \<times> 'p world"

definition py_return :: "'a \<Rightarrow> ('a, 'p) py" where
  "py_return a s = (Inr a, s)"

definition py_raise :: "exn \<Rightarrow> ('a, 'p) py" where
  "py_raise e s = (Inl e, s)"

definition py_bind :: "('a, 'p) py \<Rightarrow> ('a \<Rightarrow> ('b, 'p) py) \<Rightarrow> ('b, 'p) py" where
  "py_bind m f s = (case m s of (Inl e, s') \<Rightarrow> (Inl e, s') | (Inr a, s') \<Rightarrow> f a s')"

text \<open>\<open>try: m except Exception as e: h e\<close>: every exception of the model is caught.\<close>

definition py_try :: "('a, 'p) py \<Rightarrow> (exn \<Rightarrow> ('a, 'p) py) \<Rightarrow> ('a, 'p) py" where
  "py_try m h s = (case m s of (Inl e, s') \<Rightarrow> h e s' | (Inr a, s') \<Rightarrow> (Inr a, s'))"

definition sdk_call :: "event \<Rightarrow> ('p \<Rightarrow> (exn + 'a) \<times> 'p) \<Rightarrow> ('a, 'p) py" where
  "sdk_call ev f s =
     (case f (sdk_state s) of
        (r, p') \<Rightarrow> (r, s\<lparr>sdk_state := p', trace := trace s @ [ev]\<rparr>))"

definition path_exists :: "path \<Rightarrow> (bool, 'p) py" where
  "path_exists p s = (Inr (files s p \<noteq> None), s\<lparr>trace := trace s @ [Ev_exists p]\<rparr>)"

text \<open>
  \<open>with open(p, "w") as f: f.write(v)\<close>: opening truncates (or creates) the file;
  writing anything but a \<open>str\<close> raises \<open>TypeError\<close>, writing a text that the
  encoding cannot take raises the encoder's exception, and both leave the file empty.
\<close>

definition open_w :: "path \<Rightarrow> (unit, 'p) py" where
  "open_w p s = (Inr (), s\<lparr>files := (files s)(p \<mapsto> []), trace := trace s @ [Ev_open_w p]\<rparr>)"

definition f_write :: "'p Sdk \<Rightarrow> path \<Rightarrow> pyval \<Rightarrow> (unit, 'p) py" where
  "f_write sdk p v s =
     (case v of
        PyStr b \<Rightarrow>
          (case encode_error sdk b of
             None \<Rightarrow>
               (Inr (), s\<lparr>files := (files s)(p \<mapsto> b), trace := trace s @ [Ev_write p b]\<rparr>)
           | Some e \<Rightarrow> (Inl e, s))
      | _ \<Rightarrow> (Inl (TypeError (''write() argument must be str, not '' @ type_name v)), s))"

definition write_file :: "'p Sdk \<Rightarrow> path \<Rightarrow> pyval \<Rightarrow> (unit, 'p) py" where
  "write_file sdk p v = py_bind (open_w p) (\<lambda>_. f_write sdk p v)"

definition save_seed :: "'p Sdk \<Rightarrow> Wallet \<Rightarrow> path \<Rightarrow> bool \<Rightarrow> (unit, 'p) py" where
  "save_seed sdk wallet p encrypt s =
     (case Wallet_save_seed sdk wallet p encrypt (files s p) (sdk_state s) of
        ((r, c), p') \<Rightarrow>
          (r, s\<lparr>files := (files s)(p := c), sdk_state := p',
                trace := trace s @ [Ev_save_seed (id' wallet) p encrypt]\<rparr>))"

definition load_seed :: "'p Sdk \<Rightarrow> path \<Rightarrow> string \<Rightarrow> (Wallet option, 'p) py" where
  "load_seed sdk p passphrase s =
     sdk_call (Ev_load_seed p passphrase) (Wallet_load_seed sdk p passphrase (files s)) s"

section \<open>client.py: CDPAgentkitClient\<close>

text \<open>
  An instance holds the three attributes that \<open>__init__\<close> assigns; \<open>other_attrs\<close> is
  the rest of the instance dictionary.  No method of the class assigns an attribute,
  so the dictionary is what \<open>__init__\<close> leaves: empty.
\<close>

record CDPAgentkitClient =
  api_key_name :: string
  api_key_private :: string
  seed_storage_path :: string
  other_attrs :: "string \<rightharpoonup> pyattr"

definition CDPAgentkitClient_methods :: "string list" where
  "CDPAgentkitClient_methods =
     [''__init__'', ''create_wallet'', ''import_wallet'', ''load_wallet'', ''create_address'',
      ''export_wallet'', ''retrieve_balances'', ''create_webhook'',
      ''execute_gasless_transaction'']"

definition new_client :: "string \<Rightarrow> string \<Rightarrow> CDPAgentkitClient" where
  "new_client name private =
     \<lparr>api_key_name = name, api_key_private = private,
      seed_storage_path = ''my_wallet_seed.json'', other_attrs = Map.empty\<rparr>"

definition CDPAgentkitClient_init ::
  "'p Sdk \<Rightarrow> string \<Rightarrow> string \<Rightarrow> (CDPAgentkitClient, 'p) py" where
  "CDPAgentkitClient_init sdk name private =
     (let self = new_client name private in
      py_bind (sdk_call (Ev_configure (api_key_name self) (api_key_private self))
                 (Cdp_configure sdk (api_key_name self) (api_key_private self)))
        (\<lambda>_. py_return self))"

text \<open>
  \<open>self.<name>\<close> for a name that is neither one of the three fields nor defined by the
  class: the instance dictionary decides, and a missing name raises \<open>AttributeError\<close>.
\<close>

definition getattr :: "CDPAgentkitClient \<Rightarrow> string \<Rightarrow> (pyattr, 'p) py" where
  "getattr self name =
     (case other_attrs self name of
        Some a \<Rightarrow> py_return a
      | None \<Rightarrow>
          py_raise (AttributeError
            (CHR 0x27 # ''CDPAgentkitClient'' @ CHR 0x27 # '' object has no attribute ''
               @ CHR 0x27 # name @ [CHR 0x27])))"

definition call :: "pyattr \<Rightarrow> pyval list \<Rightarrow> (pyval, 'p) py" where
  "call a args =
     (case a of
        AFun f \<Rightarrow> (case f args of Inl e \<Rightarrow> py_raise e | Inr v \<Rightarrow> py_return v)
      | AVal _ \<Rightarrow> py_raise (TypeError ''object is not callable''))"

definition create_wallet :: "'p Sdk \<Rightarrow> CDPAgentkitClient \<Rightarrow> string \<Rightarrow> (pyval, 'p) py" where
  "create_wallet sdk self network =
     py_try
       (py_bind (sdk_call (Ev_Wallet_create network) (Wallet_create sdk network)) (\<lambda>wallet.
        py_bind (sdk_call (Ev_create_address (id' wallet)) (Wallet_create_address sdk wallet))
          (\<lambda>wallet_address.
        let address_data = PyDict
              [(''address_id'', PyStr (address_id wallet_address)),
               (''wallet_id'', PyStr (id' wallet)),
               (''network_id'', PyStr (network_id wallet))] in
        py_bind (save_seed sdk wallet (seed_storage_path self) True) (\<lambda>_.
        let wallet_data = PyDict
              [(''wallet_id'', PyStr (id' wallet)),
               (''network_id'', PyStr (network_id wallet)),
               (''address'', address_data)] in
        py_return wallet_data))))
       (\<lambda>e. py_raise (Exception (''Failed to create wallet and address: '' @ str e)))"

definition load_wallet :: "'p Sdk \<Rightarrow> CDPAgentkitClient \<Rightarrow> (Wallet option, 'p) py" where
  "load_wallet sdk self =
     py_try
       (py_bind (path_exists (seed_storage_path self)) (\<lambda>ex.
        if \<not> ex then py_raise (Exception ''Wallet seed file not found.'')
        else
          py_bind (load_seed sdk (seed_storage_path self) (api_key_private self)) (\<lambda>wallet.
          case wallet of
            None \<Rightarrow> py_raise (AttributeError
                      (CHR 0x27 # ''NoneType'' @ CHR 0x27 # '' object has no attribute ''
                         @ CHR 0x27 # ''id'' @ [CHR 0x27]))
          | Some w \<Rightarrow> py_return (Some w))))
       (\<lambda>e. py_raise (Exception (''Failed to load wallet: '' @ str e)))"

definition import_wallet ::
  "'p Sdk \<Rightarrow> CDPAgentkitClient \<Rightarrow> (string \<rightharpoonup> pyval) \<Rightarrow> (pyval, 'p) py" where
  "import_wallet sdk self import_data =
     py_try
       (case import_data ''encrypted_seed'' of
          None \<Rightarrow> py_raise (Exception (''Missing '' @ CHR 0x27 # ''encrypted_seed''
                                          @ CHR 0x27 # '' in payload.''))
        | Some encrypted_seed \<Rightarrow>
            py_bind (write_file sdk (seed_storage_path self) encrypted_seed) (\<lambda>_.
            py_bind (load_wallet sdk self) (\<lambda>wallet.
            case wallet of
              None \<Rightarrow> py_raise (Exception ''Failed to load wallet after saving seed.'')
            | Some w \<Rightarrow>
                sdk_call (Ev_export_data (id' w)) (Wallet_export_data sdk w))))
       (\<lambda>e. py_raise (Exception (''Failed to import wallet: '' @ str e)))"

definition create_address :: "'p Sdk \<Rightarrow> CDPAgentkitClient \<Rightarrow> (pyval, 'p) py" where
  "create_address sdk self =
     py_try
       (py_bind (load_wallet sdk self) (\<lambda>wallet.
        case wallet of
          None \<Rightarrow> py_raise (Exception ''No wallet found to create a new address.'')
        | Some w \<Rightarrow>
            py_bind (sdk_call (Ev_create_address (id' w)) (Wallet_create_address sdk w))
              (\<lambda>new_address.
            py_return (PyDict
              [(''address_id'', PyStr (address_id new_address)),
               (''wallet_id'', PyStr (id' w)),
               (''network_id'', PyStr (network_id w))]))))
       (\<lambda>e. py_raise (Exception (''Failed to create new address: '' @ str e)))"

definition export_wallet :: "'p Sdk \<Rightarrow> CDPAgentkitClient \<Rightarrow> (pyval, 'p) py" where
  "export_wallet sdk self =
     py_try
       (py_bind (load_wallet sdk self) (\<lambda>wallet.
        case wallet of
          None \<Rightarrow> py_raise (Exception ''No wallet found to export.'')
        | Some w \<Rightarrow> sdk_call (Ev_export_data (id' w)) (Wallet_export_data sdk w)))
       (\<lambda>e. py_raise (Exception (''Failed to export wallet: '' @ str e)))"

definition retrieve_balances :: "'p Sdk \<Rightarrow> CDPAgentkitClient \<Rightarrow> (pyval, 'p) py" where
  "retrieve_balances sdk self =
     py_try
       (py_bind (load_wallet sdk self) (\<lambda>wallet.
        case wallet of
          None \<Rightarrow> py_raise (Exception ''No wallet found to retrieve balances.'')
        | Some w \<Rightarrow> sdk_call (Ev_balances (id' w)) (Wallet_balances sdk w)))
       (\<lambda>e. py_raise (Exception (''Failed to retrieve balances: '' @ str e)))"

definition create_webhook :: "'p Sdk \<Rightarrow> CDPAgentkitClient \<Rightarrow> string \<Rightarrow> (pyval, 'p) py" where
  "create_webhook sdk self callback_url =
     py_try
       (py_bind (load_wallet sdk self) (\<lambda>wallet.
        case wallet of
          None \<Rightarrow> py_raise (Exception ''No wallet found to create webhook.'')
        | Some w \<Rightarrow>
            sdk_call (Ev_create_webhook (id' w) callback_url [''TRANSACTION_RECEIVED''])
              (Wallet_create_webhook sdk (id' w) callback_url [''TRANSACTION_RECEIVED''])))
       (\<lambda>e. py_raise (Exception (''Failed to create webhook: '' @ str e)))"

text \<open>
  The request body of a transfer, lines 228 to 234.  The \<open>asset\<close> parameter has the
  default \<open>"USDC"\<close>: \<open>None\<close> stands for a call that omits it.
\<close>

definition transfer_payload :: "string \<Rightarrow> string \<Rightarrow> string \<Rightarrow> pyval option \<Rightarrow> pyval" where
  "transfer_payload wallet_id to_address amount asset =
     PyDict
       [(''wallet_id'', PyStr wallet_id),
        (''to'', PyStr to_address),
        (''amount'', PyStr amount),
        (''asset'', (case asset of None \<Rightarrow> PyStr ''USDC'' | Some a \<Rightarrow> a)),
        (''transfer_type'', PyStr ''GASLESS'')]"

definition execute_gasless_transaction ::
  "'p Sdk \<Rightarrow> CDPAgentkitClient \<Rightarrow> string \<Rightarrow> string \<Rightarrow> string \<Rightarrow> pyval option \<Rightarrow> (pyval, 'p) py"
  where
  "execute_gasless_transaction sdk self wallet_id to_address amount asset =
     (let request_path = ''/v2/transfers'' in
      py_bind (sdk_call Ev_get_api_base (Cdp_get_api_base sdk)) (\<lambda>base.
      let url = base @ request_path;
          payload = transfer_payload wallet_id to_address amount asset;
          body = json_dumps sdk payload in
      py_bind (getattr self ''_get_headers'') (\<lambda>get_headers.
      py_bind (call get_headers [PyStr ''POST'', PyStr request_path, PyStr body]) (\<lambda>headers.
      py_try
        (py_bind (getattr self ''timeout'') (\<lambda>timeout.
         py_bind (sdk_call (Ev_request ''POST'' request_path body headers)
                    (Cdp_request sdk ''POST'' request_path body headers timeout)) (\<lambda>response.
         case raise_for_status response of
           Some e \<Rightarrow> py_raise e
         | None \<Rightarrow> (case json response of Inl e \<Rightarrow> py_raise e | Inr tx_data \<Rightarrow> py_return tx_data))))
        (\<lambda>e. py_raise (Exception (''Failed to execute gasless transaction: '' @ str e)))))))"

section \<open>api/main.py: the HTTP endpoints\<close>

text \<open>
  Each endpoint is the handler function; \<open>cdp_client\<close> is the module's global client.
  A handler either returns the response payload or raises the framework's
  \<open>HTTPException\<close>, whose status code becomes the status of the response; any other
  exception leaving a handler is answered with status 500.  Every handler declares
  \<open>response_model=Dict[str, Any]\<close>: a returned value that is not a dictionary fails
  the validation of the response and is answered with status 500 as well.
\<close>

definition response_status :: "(exn + pyval) \<Rightarrow> nat" where
  "response_status r =
     (case r of
        Inr v \<Rightarrow> (if is_dict v then 200 else 500)
      | Inl (HTTPException st _) \<Rightarrow> st
      | Inl _ \<Rightarrow> 500)"

record GaslessTransactionRequest =
  wallet_id :: string
  to_address :: string
  amount :: string
  asset :: pyval


definition api_create_wallet :: "'p Sdk \<Rightarrow> CDPAgentkitClient \<Rightarrow> string \<Rightarrow> (pyval, 'p) py" where
  "api_create_wallet sdk cdp_client network =
     py_try (create_wallet sdk cdp_client network)
       (\<lambda>e. py_raise (HTTPException 400 (str e)))"

text \<open>\<open>body\<close> is the parsed JSON object of the request.\<close>

definition api_import_wallet ::
  "'p Sdk \<Rightarrow> CDPAgentkitClient \<Rightarrow> (string \<rightharpoonup> pyval) \<Rightarrow> (pyval, 'p) py" where
  "api_import_wallet sdk cdp_client body =
     py_try
       (case body ''encrypted_seed'' of
          None \<Rightarrow> py_raise (HTTPException 422
                    (''Missing '' @ CHR 0x27 # ''encrypted_seed'' @ CHR 0x27 # '' field in payload''))
        | Some encrypted_seed \<Rightarrow>
            (let seed_file_path = ''my_wallet_seed.json'' in
             py_bind (write_file sdk seed_file_path encrypted_seed) (\<lambda>_.
             py_bind (load_wallet sdk cdp_client) (\<lambda>imported_wallet.
             py_return (case imported_wallet of None \<Rightarrow> PyNone | Some w \<Rightarrow> PyWallet w)))))
       (\<lambda>e. py_raise (HTTPException 400 (str e)))"

definition api_export_wallet :: "'p Sdk \<Rightarrow> CDPAgentkitClient \<Rightarrow> (pyval, 'p) py" where
  "api_export_wallet sdk cdp_client =
     py_try (export_wallet sdk cdp_client) (\<lambda>e. py_raise (HTTPException 400 (str e)))"

definition api_retrieve_balances :: "'p Sdk \<Rightarrow> CDPAgentkitClient \<Rightarrow> (pyval, 'p) py" where
  "api_retrieve_balances sdk cdp_client =
     py_try (retrieve_balances sdk cdp_client) (\<lambda>e. py_raise (HTTPException 400 (str e)))"

definition api_create_address :: "'p Sdk \<Rightarrow> CDPAgentkitClient \<Rightarrow> (pyval, 'p) py" where
  "api_create_address sdk cdp_client =
     py_try (create_address sdk cdp_client) (\<lambda>e. py_raise (HTTPException 400 (str e)))"


definition api_create_webhook :: "'p Sdk \<Rightarrow> CDPAgentkitClient \<Rightarrow> string \<Rightarrow> (pyval, 'p) py" where
  "api_create_webhook sdk cdp_client callback_url =
     py_try (create_webhook sdk cdp_client callback_url)
       (\<lambda>e. py_raise (HTTPException 400 (str e)))"

section \<open>Observing the trace\<close>

text \<open>The two events by which \<open>load_wallet\<close> touches the seed file.\<close>

fun reads_seed_file :: "event \<Rightarrow> bool" where
  "reads_seed_file (Ev_exists _) = True"
| "reads_seed_file (Ev_load_seed _ _) = True"
| "reads_seed_file _ = False"

section \<open>A concrete provider for the worked examples\<close>

text \<open>
  A small provider over a counter: it allocates the wallet \<open>w1\<close> on the requested
  network, hands out the address \<open>0xA1\<close>, stores the blob \<open>seed-w1\<close> and decrypts
  exactly that blob; every text can be encoded, and a flat rendering of a dictionary of
  strings stands in for its JSON text.  \<open>full_disk_sdk\<close> is the same provider on a
  disk that refuses the write of the seed; \<open>merging_sdk\<close> is the same provider with a
  \<open>save_seed\<close> that adds the wallet's record to the records already in the file.
\<close>

definition flat_dumps :: "pyval \<Rightarrow> string" where
  "flat_dumps v =
     (case v of
        PyDict kvs \<Rightarrow>
          concat (map (\<lambda>(k, x). k @ ''='' @ (case x of PyStr t \<Rightarrow> t | _ \<Rightarrow> ''?'') @ '';'') kvs)
      | _ \<Rightarrow> ''?'')"

definition demo_wallet :: "string \<Rightarrow> Wallet" where
  "demo_wallet network = \<lparr>id' = ''w1'', network_id = network\<rparr>"

definition demo_sdk :: "nat Sdk" where
  "demo_sdk =
     \<lparr>Cdp_configure = (\<lambda>_ _ p. (Inr (), p)),
      Wallet_create = (\<lambda>network p. (Inr (demo_wallet network), Suc p)),
      Wallet_create_address = (\<lambda>_ p. (Inr \<lparr>address_id = ''0xA1''\<rparr>, Suc p)),
      Wallet_save_seed = (\<lambda>_ _ _ _ p. ((Inr (), Some ''seed-w1''), p)),
      Wallet_load_seed = (\<lambda>file_path _ fs p.
         if fs file_path = Some ''seed-w1'' then (Inr (Some (demo_wallet ''base-sepolia'')), p)
         else (Inl (SdkError ''decryption failed''), p)),
      Wallet_export_data = (\<lambda>_ p. (Inr (PySdk 7), p)),
      Wallet_balances = (\<lambda>_ p. (Inr (PyDict []), p)),
      Wallet_create_webhook = (\<lambda>_ _ _ p. (Inr (PySdk 8), p)),
      Cdp_get_api_base = (\<lambda>p. (Inr ''https://api.cdp.coinbase.com'', p)),
      Cdp_request = (\<lambda>_ _ _ _ _ p.
         (Inr \<lparr>raise_for_status = None, json = Inr (PySdk 9)\<rparr>, Suc p)),
      json_dumps = flat_dumps,
      encode_error = (\<lambda>_. None)\<rparr>"

definition full_disk_sdk :: "nat Sdk" where
  "full_disk_sdk =
     demo_sdk\<lparr>Wallet_save_seed :=
       (\<lambda>_ _ _ prior p. ((Inl (SdkError ''No space left on device''), prior), p))\<rparr>"

definition merging_sdk :: "nat Sdk" where
  "merging_sdk =
     demo_sdk\<lparr>Wallet_save_seed :=
       (\<lambda>_ _ _ prior p.
          ((Inr (), Some (case prior of None \<Rightarrow> ''seed-w1'' | Some old \<Rightarrow> old @ '';seed-w1'')),
           p))\<rparr>"

definition demo_client :: CDPAgentkitClient where
  "demo_client = new_client ''key-name'' ''key-secret''"

text \<open>
  A client that, unlike any client the program builds, carries the two attributes that
  \<open>execute_gasless_transaction\<close> reads.
\<close>

definition patched_client :: CDPAgentkitClient where
  "patched_client =
     demo_client\<lparr>other_attrs :=
       [''_get_headers'' \<mapsto> AFun (\<lambda>_. Inr (PyDict [])), ''timeout'' \<mapsto> AVal (PySdk 30)]\<rparr>"

definition empty_world :: "nat world" where
  "empty_world = \<lparr>files = Map.empty, sdk_state = 0, trace = []\<rparr>"

definition old_seed_world :: "nat world" where
  "old_seed_world = \<lparr>files = [''my_wallet_seed.json'' \<mapsto> ''seed-w0''], sdk_state = 0, trace = []\<rparr>"

definition seeded_world :: "nat world" where
  "seeded_world = \<lparr>files = [''my_wallet_seed.json'' \<mapsto> ''seed-w1''], sdk_state = 0, trace = []\<rparr>"

section \<open>Basic facts about the computations\<close>

lemmas py_defs =
  py_return_def py_raise_def py_bind_def py_try_def sdk_call_def path_exists_def
  open_w_def f_write_def write_file_def save_seed_def load_seed_def getattr_def call_def

lemmas demo_defs =
  demo_sdk_def full_disk_sdk_def merging_sdk_def demo_client_def new_client_def empty_world_def
  seeded_world_def old_seed_world_def demo_wallet_def flat_dumps_def

text \<open>The constructor returns the instance with exactly the three assigned attributes.\<close>

lemma CDPAgentkitClient_init_result:
  "CDPAgentkitClient_init sdk name private s = (Inr c, s') \<Longrightarrow> c = new_client name private"
  by (auto simp add: CDPAgentkitClient_init_def py_defs Let_def split: prod.splits sum.splits)

text \<open>\<open>load_wallet\<close>, evaluated: one existence check, then at most one call of the SDK.\<close>

lemma load_wallet_eval:
  "load_wallet sdk self s =
     (case files s (seed_storage_path self) of
        None \<Rightarrow>
          (Inl (Exception ''Failed to load wallet: Wallet seed file not found.''),
           s\<lparr>trace := trace s @ [Ev_exists (seed_storage_path self)]\<rparr>)
      | Some c \<Rightarrow>
          (case Wallet_load_seed sdk (seed_storage_path self) (api_key_private self) (files s)
                  (sdk_state s) of
             (r, p') \<Rightarrow>
               (case r of
                  Inl e \<Rightarrow> Inl (Exception (''Failed to load wallet: '' @ str e))
                | Inr None \<Rightarrow> Inl (Exception (''Failed to load wallet: '' @
                      CHR 0x27 # ''NoneType'' @ CHR 0x27 # '' object has no attribute ''
                         @ CHR 0x27 # ''id'' @ [CHR 0x27]))
                | Inr (Some w) \<Rightarrow> Inr (Some w),
                s\<lparr>sdk_state := p',
                  trace := trace s @ [Ev_exists (seed_storage_path self),
                     Ev_load_seed (seed_storage_path self) (api_key_private self)]\<rparr>)))"
  by (simp add: load_wallet_def py_defs split: option.splits prod.splits sum.splits)

lemmas op_simps = py_try_def py_bind_def py_raise_def py_return_def sdk_call_def load_wallet_eval

lemma load_wallet_trace:
  "trace (snd (load_wallet sdk self s)) =
     trace s @ Ev_exists (seed_storage_path self) #
       (case files s (seed_storage_path self) of
          None \<Rightarrow> []
        | Some _ \<Rightarrow> [Ev_load_seed (seed_storage_path self) (api_key_private self)])"
  by (simp add: load_wallet_eval split: option.splits prod.splits sum.splits)

text \<open>
  A successful \<open>load_wallet\<close> never returns \<open>None\<close>, so the \<open>if not wallet\<close> guards of
  its callers never fire (a wallet object is taken to be truthy).
\<close>

lemma load_wallet_never_None: "fst (load_wallet sdk self s) \<noteq> Inr None"
  by (simp add: load_wallet_eval split: option.splits prod.splits sum.splits)





text \<open>
  What a transfer call does to the trace: the base-URL lookup, then at most one request,
  whose body is the serialised payload.
\<close>

lemma execute_gasless_transaction_trace:
  "\<exists>evs. trace (snd (execute_gasless_transaction sdk self wid dest amt ast s)) =
      trace s @ Ev_get_api_base # evs
    \<and> (evs = [] \<or> (\<exists>h. evs = [Ev_request ''POST'' ''/v2/transfers''
          (json_dumps sdk (PyDict
            [(''wallet_id'', PyStr wid), (''to'', PyStr dest), (''amount'', PyStr amt),
             (''asset'', (case ast of None \<Rightarrow> PyStr ''USDC'' | Some a \<Rightarrow> a)),
             (''transfer_type'', PyStr ''GASLESS'')])) h]))"
  by (cases "Cdp_get_api_base sdk (sdk_state s)")
     (auto simp add: execute_gasless_transaction_def transfer_payload_def py_defs Let_def
      split: option.splits prod.splits sum.splits pyattr.splits)


text \<open>
  With the two attributes present the request is submitted, also when no seed file
  exists.
\<close>

lemma patched_client_submits_request:
  "execute_gasless_transaction demo_sdk patched_client ''w9'' ''0xB2'' ''5'' None empty_world =
     (Inr (PySdk 9),
      \<lparr>files = Map.empty, sdk_state = 1,
       trace = [Ev_get_api_base, Ev_request ''POST'' ''/v2/transfers''
          (json_dumps demo_sdk (PyDict
            [(''wallet_id'', PyStr ''w9''), (''to'', PyStr ''0xB2''), (''amount'', PyStr ''5''),
             (''asset'', PyStr ''USDC''), (''transfer_type'', PyStr ''GASLESS'')])) (PyDict [])]\<rparr>)"
  by (simp add: execute_gasless_transaction_def transfer_payload_def py_defs Let_def
      patched_client_def demo_defs)

text \<open>
  Over HTTP, an import that succeeds in the handler is still answered with status 500:
  the wallet object it returns is not a dictionary.
\<close>

lemma import_endpoint_response_invalid:
  "response_status (fst (api_import_wallet demo_sdk demo_client
      [''encrypted_seed'' \<mapsto> PyStr ''seed-w1''] empty_world)) = 500"
  by (simp add: api_import_wallet_def op_simps response_status_def
      write_file_def open_w_def f_write_def demo_defs Let_def)

text \<open>A blob that cannot be encoded, or that is not a text, leaves the seed file empty.\<close>

lemma import_unwritable_blob_empties_file:
  "files (snd (import_wallet (demo_sdk\<lparr>encode_error := (\<lambda>_. Some (UnicodeEncodeError ''surrogates not allowed''))\<rparr>)
      demo_client [''encrypted_seed'' \<mapsto> PyStr ''seed-w2''] seeded_world))
     ''my_wallet_seed.json'' = Some []
   \<and> fst (import_wallet demo_sdk demo_client [''encrypted_seed'' \<mapsto> PyInt 5] seeded_world) =
     Inl (Exception ''Failed to import wallet: write() argument must be str, not int'')
   \<and> files (snd (import_wallet demo_sdk demo_client [''encrypted_seed'' \<mapsto> PyInt 5] seeded_world))
     ''my_wallet_seed.json'' = Some []"
  by (simp add: import_wallet_def op_simps write_file_def open_w_def f_write_def demo_defs)

section \<open>The transfer operation on a client as constructed\<close>

text \<open>
  C1.  On a client built by the constructor, \<open>execute_gasless_transaction\<close> raises for
  every argument tuple, every provider and every state, and the only call that left the
  process is the base-URL lookup: no transfer request is submitted.  The exception is the
  one raised at the lookup, or else the \<open>AttributeError\<close> of reading
  \<open>self._get_headers\<close>; it reaches the caller as it is, without the prefix that the
  method's own handler adds, because the read happens before the \<open>try\<close> block.  Neither
  \<open>_get_headers\<close> nor \<open>timeout\<close> is an attribute of the instance or a method of the class.
\<close>

theorem execute_gasless_transaction_raises_before_request:
  "execute_gasless_transaction sdk (new_client name private) wid dest amt ast s =
     (Inl (case fst (Cdp_get_api_base sdk (sdk_state s)) of
             Inl e \<Rightarrow> e
           | Inr _ \<Rightarrow> AttributeError
               (CHR 0x27 # ''CDPAgentkitClient'' @ CHR 0x27 # '' object has no attribute ''
                  @ CHR 0x27 # ''_get_headers'' @ [CHR 0x27])),
      s\<lparr>sdk_state := snd (Cdp_get_api_base sdk (sdk_state s)),
        trace := trace s @ [Ev_get_api_base]\<rparr>)
   \<and> other_attrs (new_client name private) ''_get_headers'' = None
   \<and> other_attrs (new_client name private) ''timeout'' = None
   \<and> ''_get_headers'' \<notin> set CDPAgentkitClient_methods
   \<and> ''timeout'' \<notin> set CDPAgentkitClient_methods"
  by (cases "Cdp_get_api_base sdk (sdk_state s)")
     (simp add: execute_gasless_transaction_def new_client_def py_defs Let_def
        CDPAgentkitClient_methods_def split: sum.splits)

section \<open>Importing a seed\<close>

text \<open>
  C2.  A payload without \<open>encrypted_seed\<close>: the endpoint and the client method both
  fail and leave the state as it was (nothing is written).  The endpoint raises its
  422 inside its own \<open>try\<close> block, whose handler catches it and answers 400, the status
  it also gives to an operational failure such as a blob that does not decrypt.
\<close>

theorem import_missing_seed_status:
  "api_import_wallet sdk cdp_client (body(''encrypted_seed'' := None)) s =
     (Inl (HTTPException 400
        (''422: Missing '' @ CHR 0x27 # ''encrypted_seed'' @ CHR 0x27 # '' field in payload'')), s)
   \<and> import_wallet sdk self (body(''encrypted_seed'' := None)) s =
     (Inl (Exception (''Failed to import wallet: Missing '' @ CHR 0x27 # ''encrypted_seed''
                                          @ CHR 0x27 # '' in payload.'')), s)
   \<and> response_status (fst (api_import_wallet sdk cdp_client (body(''encrypted_seed'' := None)) s))
       = 400
   \<and> response_status (fst (api_import_wallet demo_sdk demo_client
         [''encrypted_seed'' \<mapsto> PyStr ''corrupt-blob''] seeded_world)) = 400"
  by (simp add: api_import_wallet_def import_wallet_def op_simps response_status_def
      write_file_def open_w_def f_write_def demo_defs Let_def digit_char_def)

text \<open>
  C3.  A successful import of the blob \<open>seed-w1\<close>: the client method returns what
  \<open>export_data\<close> gives for the loaded wallet, while the endpoint returns the wallet
  object that \<open>load_wallet\<close> produced and never calls \<open>export_data\<close>.
\<close>

theorem import_endpoint_returns_session:
  "api_import_wallet demo_sdk demo_client [''encrypted_seed'' \<mapsto> PyStr ''seed-w1''] empty_world =
     (Inr (PyWallet (demo_wallet ''base-sepolia'')),
      \<lparr>files = [''my_wallet_seed.json'' \<mapsto> ''seed-w1''], sdk_state = 0,
       trace = [Ev_open_w ''my_wallet_seed.json'', Ev_write ''my_wallet_seed.json'' ''seed-w1'',
                Ev_exists ''my_wallet_seed.json'',
                Ev_load_seed ''my_wallet_seed.json'' ''key-secret'']\<rparr>)
   \<and> import_wallet demo_sdk demo_client [''encrypted_seed'' \<mapsto> PyStr ''seed-w1''] empty_world =
     (Inr (PySdk 7),
      \<lparr>files = [''my_wallet_seed.json'' \<mapsto> ''seed-w1''], sdk_state = 0,
       trace = [Ev_open_w ''my_wallet_seed.json'', Ev_write ''my_wallet_seed.json'' ''seed-w1'',
                Ev_exists ''my_wallet_seed.json'',
                Ev_load_seed ''my_wallet_seed.json'' ''key-secret'',
                Ev_export_data ''w1'']\<rparr>)"
  by (simp add: api_import_wallet_def import_wallet_def op_simps
      write_file_def open_w_def f_write_def demo_defs Let_def)

section \<open>Creating a wallet\<close>

text \<open>
  C4, as the code has it.  When the provider allocates the wallet and the address but
  saving the seed raises \<open>e\<close>, \<open>create_wallet\<close> raises the wrapped error and returns
  nothing; the two provider calls and the attempted save have happened and are not
  undone.
\<close>

theorem create_wallet_persist_failure:
  assumes "Wallet_create sdk network (sdk_state s) = (Inr wallet, pa)"
    and "Wallet_create_address sdk wallet pa = (Inr addr, pb)"
    and "Wallet_save_seed sdk wallet (seed_storage_path self) True
           (files s (seed_storage_path self)) pb = ((Inl e, c), pc)"
  shows "create_wallet sdk self network s =
     (Inl (Exception (''Failed to create wallet and address: '' @ str e)),
      s\<lparr>files := (files s)(seed_storage_path self := c), sdk_state := pc,
        trace := trace s @ [Ev_Wallet_create network, Ev_create_address (id' wallet),
           Ev_save_seed (id' wallet) (seed_storage_path self) True]\<rparr>)"
  using assms by (simp add: create_wallet_def op_simps save_seed_def Let_def)

text \<open>The same on the provider whose disk is full.\<close>

theorem create_wallet_persist_failure_witness:
  "Wallet_create full_disk_sdk ''base-sepolia'' (sdk_state empty_world) =
      (Inr (demo_wallet ''base-sepolia''), 1)
   \<and> Wallet_create_address full_disk_sdk (demo_wallet ''base-sepolia'') 1 =
      (Inr \<lparr>address_id = ''0xA1''\<rparr>, 2)
   \<and> Wallet_save_seed full_disk_sdk (demo_wallet ''base-sepolia'')
        (seed_storage_path demo_client) True
        (files empty_world (seed_storage_path demo_client)) 2 =
      ((Inl (SdkError ''No space left on device''), None), 2)
   \<and> create_wallet full_disk_sdk demo_client ''base-sepolia'' empty_world =
     (Inl (Exception ''Failed to create wallet and address: No space left on device''),
      \<lparr>files = Map.empty, sdk_state = 2,
        trace = [Ev_Wallet_create ''base-sepolia'', Ev_create_address ''w1'',
           Ev_save_seed ''w1'' ''my_wallet_seed.json'' True]\<rparr>)"
  using create_wallet_persist_failure
     [where sdk = full_disk_sdk and network = "''base-sepolia''" and s = empty_world
      and wallet = "demo_wallet ''base-sepolia''" and pa = 1
      and addr = "\<lparr>address_id = ''0xA1''\<rparr>" and pb = 2 and self = demo_client
      and e = "SdkError ''No space left on device''" and c = None and pc = 2]
  by (simp add: demo_defs)

text \<open>
  On the full disk the caller gets the exception and not the record of the created
  wallet, although wallet and address were created.
\<close>

theorem persist_failure_returns_no_session:
  "fst (create_wallet full_disk_sdk demo_client ''base-sepolia'' empty_world) =
     Inl (Exception ''Failed to create wallet and address: No space left on device'')
   \<and> fst (create_wallet full_disk_sdk demo_client ''base-sepolia'' empty_world) \<noteq>
     Inr (PyDict [(''wallet_id'', PyStr ''w1''), (''network_id'', PyStr ''base-sepolia''),
        (''address'', PyDict [(''address_id'', PyStr ''0xA1''), (''wallet_id'', PyStr ''w1''),
            (''network_id'', PyStr ''base-sepolia'')])])
   \<and> trace (snd (create_wallet full_disk_sdk demo_client ''base-sepolia'' empty_world)) =
     [Ev_Wallet_create ''base-sepolia'', Ev_create_address ''w1'',
      Ev_save_seed ''w1'' ''my_wallet_seed.json'' True]"
  by (simp add: create_wallet_def op_simps save_seed_def demo_defs Let_def)

section \<open>Loading the wallet\<close>

text \<open>
  C5.  The code has one exception class and tells the failures apart by message.
  Without a seed file, \<open>load_wallet\<close> raises the not-found failure after the existence
  check alone, and \<open>export_wallet\<close>, \<open>retrieve_balances\<close>, \<open>create_address\<close> and
  \<open>create_webhook\<close> raise it wrapped once more, leaving the files and the provider as
  they were.  With a seed file, a failure \<open>e\<close> of the SDK's load (a blob that does not
  decrypt) is raised wrapped, and a loaded wallet is returned.
\<close>

theorem load_wallet_failures:
  "(files s (seed_storage_path self) = None \<longrightarrow>
      load_wallet sdk self s =
        (Inl (Exception ''Failed to load wallet: Wallet seed file not found.''),
         s\<lparr>trace := trace s @ [Ev_exists (seed_storage_path self)]\<rparr>)
    \<and> export_wallet sdk self s =
        (Inl (Exception
           ''Failed to export wallet: Failed to load wallet: Wallet seed file not found.''),
         s\<lparr>trace := trace s @ [Ev_exists (seed_storage_path self)]\<rparr>)
    \<and> retrieve_balances sdk self s =
        (Inl (Exception
           ''Failed to retrieve balances: Failed to load wallet: Wallet seed file not found.''),
         s\<lparr>trace := trace s @ [Ev_exists (seed_storage_path self)]\<rparr>)
    \<and> create_address sdk self s =
        (Inl (Exception
           ''Failed to create new address: Failed to load wallet: Wallet seed file not found.''),
         s\<lparr>trace := trace s @ [Ev_exists (seed_storage_path self)]\<rparr>)
    \<and> create_webhook sdk self url s =
        (Inl (Exception
           ''Failed to create webhook: Failed to load wallet: Wallet seed file not found.''),
         s\<lparr>trace := trace s @ [Ev_exists (seed_storage_path self)]\<rparr>))
   \<and> (files s (seed_storage_path self) \<noteq> None \<longrightarrow>
        Wallet_load_seed sdk (seed_storage_path self) (api_key_private self) (files s)
          (sdk_state s) = (Inl e, p') \<longrightarrow>
        load_wallet sdk self s =
          (Inl (Exception (''Failed to load wallet: '' @ str e)),
           s\<lparr>sdk_state := p',
             trace := trace s @ [Ev_exists (seed_storage_path self),
               Ev_load_seed (seed_storage_path self) (api_key_private self)]\<rparr>))
   \<and> (files s (seed_storage_path self) \<noteq> None \<longrightarrow>
        Wallet_load_seed sdk (seed_storage_path self) (api_key_private self) (files s)
          (sdk_state s) = (Inr (Some w), p') \<longrightarrow>
        load_wallet sdk self s =
          (Inr (Some w),
           s\<lparr>sdk_state := p',
             trace := trace s @ [Ev_exists (seed_storage_path self),
               Ev_load_seed (seed_storage_path self) (api_key_private self)]\<rparr>))"
  by (auto simp add: export_wallet_def retrieve_balances_def create_address_def
      create_webhook_def op_simps)

text \<open>No seed file, the stored seed, and a blob that does not decrypt.\<close>

theorem load_wallet_failures_witness:
  "files empty_world (seed_storage_path demo_client) = None
   \<and> fst (load_wallet demo_sdk demo_client empty_world) =
       Inl (Exception ''Failed to load wallet: Wallet seed file not found.'')
   \<and> fst (export_wallet demo_sdk demo_client empty_world) =
       Inl (Exception
         ''Failed to export wallet: Failed to load wallet: Wallet seed file not found.'')
   \<and> files seeded_world (seed_storage_path demo_client) \<noteq> None
   \<and> fst (load_wallet demo_sdk demo_client seeded_world) =
       Inr (Some (demo_wallet ''base-sepolia''))
   \<and> fst (load_wallet demo_sdk demo_client
        (seeded_world\<lparr>files := [''my_wallet_seed.json'' \<mapsto> ''corrupt-blob'']\<rparr>)) =
       Inl (Exception ''Failed to load wallet: decryption failed'')"
  using load_wallet_failures [where s = empty_world and self = demo_client and sdk = demo_sdk]
    load_wallet_failures [where s = seeded_world and self = demo_client and sdk = demo_sdk
          and w = "demo_wallet ''base-sepolia''" and p' = 0]
    load_wallet_failures
      [where s = "seeded_world\<lparr>files := [''my_wallet_seed.json'' \<mapsto> ''corrupt-blob'']\<rparr>"
          and self = demo_client and sdk = demo_sdk and e = "SdkError ''decryption failed''"
          and p' = 0]
  by (simp add: demo_defs)

section \<open>The single seed file\<close>




section \<open>Which operations rehydrate\<close>

text \<open>
  C7, as the code has it.  Every call of \<open>create_address\<close>, \<open>export_wallet\<close>,
  \<open>retrieve_balances\<close> and \<open>create_webhook\<close> begins with the full run of
  \<open>load_wallet\<close>: the existence check of the seed file and, when the file exists, the
  SDK's load from it with the held passphrase; the client carries no session from one
  call to the next.  \<open>execute_gasless_transaction\<close> adds no read of the seed file to the
  trace: it does not call \<open>load_wallet\<close>.
\<close>

theorem operations_rehydrate_except_gasless:
  "prefix (trace (snd (load_wallet sdk self s))) (trace (snd (create_address sdk self s)))
   \<and> prefix (trace (snd (load_wallet sdk self s))) (trace (snd (export_wallet sdk self s)))
   \<and> prefix (trace (snd (load_wallet sdk self s))) (trace (snd (retrieve_balances sdk self s)))
   \<and> prefix (trace (snd (load_wallet sdk self s))) (trace (snd (create_webhook sdk self url s)))
   \<and> trace (snd (load_wallet sdk self s)) =
       trace s @ Ev_exists (seed_storage_path self) #
         (case files s (seed_storage_path self) of
            None \<Rightarrow> []
          | Some _ \<Rightarrow> [Ev_load_seed (seed_storage_path self) (api_key_private self)])
   \<and> filter reads_seed_file
         (trace (snd (execute_gasless_transaction sdk self wid dest amt ast s))) =
       filter reads_seed_file (trace s)"
proof (intro conjI)
  show "prefix (trace (snd (load_wallet sdk self s))) (trace (snd (create_address sdk self s)))"
    by (simp add: create_address_def op_simps prefix_def split: option.splits prod.splits sum.splits)
  show "prefix (trace (snd (load_wallet sdk self s))) (trace (snd (export_wallet sdk self s)))"
    by (simp add: export_wallet_def op_simps prefix_def split: option.splits prod.splits sum.splits)
  show "prefix (trace (snd (load_wallet sdk self s))) (trace (snd (retrieve_balances sdk self s)))"
    by (simp add: retrieve_balances_def op_simps prefix_def
        split: option.splits prod.splits sum.splits)
  show "prefix (trace (snd (load_wallet sdk self s))) (trace (snd (create_webhook sdk self url s)))"
    by (simp add: create_webhook_def op_simps prefix_def
        split: option.splits prod.splits sum.splits)
  show "trace (snd (load_wallet sdk self s)) =
       trace s @ Ev_exists (seed_storage_path self) #
         (case files s (seed_storage_path self) of
            None \<Rightarrow> []
          | Some _ \<Rightarrow> [Ev_load_seed (seed_storage_path self) (api_key_private self)])"
    by (rule load_wallet_trace)
  show "filter reads_seed_file
         (trace (snd (execute_gasless_transaction sdk self wid dest amt ast s))) =
       filter reads_seed_file (trace s)"
    using execute_gasless_transaction_trace [of sdk self wid dest amt ast s] by auto
qed

text \<open>
  A transfer with a seed file in place: the trace holds the base-URL lookup and nothing
  of what \<open>load_wallet\<close> does.
\<close>

theorem gasless_does_not_load_wallet:
  "trace (snd (execute_gasless_transaction demo_sdk demo_client ''w1'' ''0xB2'' ''5'' None
      seeded_world)) = [Ev_get_api_base]
   \<and> trace (snd (load_wallet demo_sdk demo_client seeded_world)) =
      [Ev_exists ''my_wallet_seed.json'', Ev_load_seed ''my_wallet_seed.json'' ''key-secret'']
   \<and> \<not> prefix (trace (snd (load_wallet demo_sdk demo_client seeded_world)))
        (trace (snd (execute_gasless_transaction demo_sdk demo_client ''w1'' ''0xB2'' ''5'' None
      seeded_world)))"
  by (simp add: execute_gasless_transaction_def py_defs load_wallet_eval demo_defs Let_def)

section \<open>The steps of a successful creation\<close>

text \<open>
  C8.  When \<open>create_wallet\<close> returns, the provider allocated a wallet on the requested
  network, then gave one address for it, then saved the seed, encrypted, to the seed
  file; these three calls, in this order, are all the calls added to the trace, and the
  returned record has the identifiers of that wallet and that address.
\<close>

theorem create_wallet_success_steps:
  assumes "create_wallet sdk self network s = (Inr d, s')"
  shows "\<exists>wallet addr pa pb c.
     Wallet_create sdk network (sdk_state s) = (Inr wallet, pa)
   \<and> Wallet_create_address sdk wallet pa = (Inr addr, pb)
   \<and> Wallet_save_seed sdk wallet (seed_storage_path self) True
        (files s (seed_storage_path self)) pb = ((Inr (), c), sdk_state s')
   \<and> files s' = (files s)(seed_storage_path self := c)
   \<and> trace s' = trace s @ [Ev_Wallet_create network, Ev_create_address (id' wallet),
           Ev_save_seed (id' wallet) (seed_storage_path self) True]
   \<and> d = PyDict [(''wallet_id'', PyStr (id' wallet)), (''network_id'', PyStr (network_id wallet)),
        (''address'', PyDict [(''address_id'', PyStr (address_id addr)),
            (''wallet_id'', PyStr (id' wallet)), (''network_id'', PyStr (network_id wallet))])]"
  using assms
  by (auto simp add: create_wallet_def op_simps save_seed_def Let_def
      split: prod.splits sum.splits)

text \<open>A creation on \<open>base-sepolia\<close> with the example provider.\<close>

theorem create_wallet_success_steps_witness:
  "create_wallet demo_sdk demo_client ''base-sepolia'' empty_world =
     (Inr (PyDict [(''wallet_id'', PyStr ''w1''), (''network_id'', PyStr ''base-sepolia''),
        (''address'', PyDict [(''address_id'', PyStr ''0xA1''), (''wallet_id'', PyStr ''w1''),
            (''network_id'', PyStr ''base-sepolia'')])]),
      \<lparr>files = [''my_wallet_seed.json'' \<mapsto> ''seed-w1''], sdk_state = 2,
        trace = [Ev_Wallet_create ''base-sepolia'', Ev_create_address ''w1'',
           Ev_save_seed ''w1'' ''my_wallet_seed.json'' True]\<rparr>)
   \<and> (\<exists>wallet addr pa pb c.
     Wallet_create demo_sdk ''base-sepolia'' 0 = (Inr wallet, pa)
   \<and> Wallet_create_address demo_sdk wallet pa = (Inr addr, pb)
   \<and> Wallet_save_seed demo_sdk wallet ''my_wallet_seed.json'' True None pb = ((Inr (), c), 2))"
proof -
  have run: "create_wallet demo_sdk demo_client ''base-sepolia'' empty_world =
     (Inr (PyDict [(''wallet_id'', PyStr ''w1''), (''network_id'', PyStr ''base-sepolia''),
        (''address'', PyDict [(''address_id'', PyStr ''0xA1''), (''wallet_id'', PyStr ''w1''),
            (''network_id'', PyStr ''base-sepolia'')])]),
      \<lparr>files = [''my_wallet_seed.json'' \<mapsto> ''seed-w1''], sdk_state = 2,
        trace = [Ev_Wallet_create ''base-sepolia'', Ev_create_address ''w1'',
           Ev_save_seed ''w1'' ''my_wallet_seed.json'' True]\<rparr>)"
    by (simp add: create_wallet_def op_simps save_seed_def demo_defs Let_def)
  from create_wallet_success_steps [OF run] show ?thesis
    using run by (simp add: demo_client_def new_client_def empty_world_def) blast
qed

section \<open>Address creation and the seed file\<close>

text \<open>
  C9.  \<open>create_address\<close> leaves every file as it was, the seed file included, whether
  it returns or raises.
\<close>

theorem create_address_keeps_files:
  "files (snd (create_address sdk self s)) = files s"
  by (simp add: create_address_def op_simps split: option.splits prod.splits sum.splits)

section \<open>The transfer request\<close>



end
